theory Spec2Isabelle
  imports Main
begin

section \<open>Python values used by the ticket cog\<close>

text \<open>
  The exceptions the modelled code can raise. \<open>IndexError\<close> and \<open>AttributeError\<close> come from
  Python itself (\<open>args[1]\<close>, \<open>result[0][0]\<close>, \<open>None.delete\<close>), \<open>ProgrammingError\<close> from
  sqlite3 when the number of bound values differs from the number of placeholders,
  \<open>HTTPException\<close> from a Discord call that the service refuses, and \<open>FileExistsError\<close>
  from opening an existing file in mode \<open>'x'\<close>.
\<close>

datatype error = IndexError | AttributeError | ProgrammingError | HTTPException | FileExistsError

datatype TicketType = REPORT | SUGGESTION

text \<open>
  A \<open>discord.Member\<close>, with the three attributes the cog reads: \<open>id\<close>, \<open>mention\<close> and
  \<open>colour\<close>. The library renders \<open>mention\<close> as \<open><@id>\<close>; here it is a field of its own.
\<close>

record member =
  member_id :: int
  mention :: string
  colour :: int

text \<open>The positional \<open>*args\<close> of \<open>create_ticket\<close>: members and strings.\<close>

datatype arg = Member member | Str string

record interaction =
  user :: member

text \<open>\<open>str(n)\<close> for a Python int: decimal digits, with a minus sign when negative.\<close>

definition digit :: "nat \<Rightarrow> char" where
  "digit d = char_of (48 + d)"

fun str_nat :: "nat \<Rightarrow> string" where
  "str_nat n = (if n < 10 then [digit n] else str_nat (n div 10) @ [digit (n mod 10)])"

declare str_nat.simps [simp del]

definition str_int :: "int \<Rightarrow> string" where
  "str_int i = (if i < 0 then CHR ''-'' # str_nat (nat (- i)) else str_nat (nat i))"

text \<open>\<open>str.lower()\<close> and \<open>str.title()\<close> on ASCII text.\<close>

definition is_upper :: "char \<Rightarrow> bool" where
  "is_upper c = (65 \<le> (of_char c :: nat) \<and> (of_char c :: nat) \<le> 90)"

definition is_lower :: "char \<Rightarrow> bool" where
  "is_lower c = (97 \<le> (of_char c :: nat) \<and> (of_char c :: nat) \<le> 122)"

definition lower_char :: "char \<Rightarrow> char" where
  "lower_char c = (if is_upper c then char_of ((of_char c :: nat) + 32) else c)"

definition upper_char :: "char \<Rightarrow> char" where
  "upper_char c = (if is_lower c then char_of ((of_char c :: nat) - 32) else c)"

definition lower :: "string \<Rightarrow> string" where
  "lower s = map lower_char s"

fun title_from :: "bool \<Rightarrow> string \<Rightarrow> string" where
  "title_from prev [] = []"
| "title_from prev (c # cs) =
     (if is_upper c \<or> is_lower c
      then (if prev then lower_char c else upper_char c) # title_from True cs
      else c # title_from False cs)"

definition title :: "string \<Rightarrow> string" where
  "title s = title_from False s"

text \<open>\<open>ticket_type.name\<close> of the enum \<open>TicketType\<close>.\<close>

fun name :: "TicketType \<Rightarrow> string" where
  "name REPORT = ''REPORT''"
| "name SUGGESTION = ''SUGGESTION''"

section \<open>The ticket store\<close>

text \<open>A value held in a column: SQLite's \<open>NULL\<close>, an integer or a text.\<close>

datatype sqlval = NULL | INTEGER int | TEXT string

text \<open>
  Modelled from the spec: the schema of the two ticket tables, which the repository creates
  outside the files at hand. Section 6 gives the columns: \<open>ticket_id\<close> (integer, primary
  key, auto-increment), \<open>user_id\<close>, \<open>accused_user_id\<close> (report table only), \<open>channel_id\<close>
  (nullable) and \<open>reason_msg\<close> or \<open>suggestion_msg\<close>. One row type serves both tables: the
  message column is \<open>msg\<close>, and \<open>accused_user_id\<close> stays \<open>NULL\<close> in a suggestion row.
  A table also keeps \<open>seq\<close>, the largest id it has handed out (SQLite's \<open>sqlite_sequence\<close>),
  so that an id is never used again after its row is deleted (section 3).
\<close>

record row =
  ticket_id :: int
  user_id :: sqlval
  accused_user_id :: sqlval
  channel_id :: sqlval
  msg :: sqlval

record table =
  rows :: "row list"
  seq :: int

record database =
  user_report_tickets :: table
  user_suggestion_tickets :: table

fun table_name :: "TicketType \<Rightarrow> string" where
  "table_name REPORT = ''user_report_tickets''"
| "table_name SUGGESTION = ''user_suggestion_tickets''"

fun get_table :: "database \<Rightarrow> TicketType \<Rightarrow> table" where
  "get_table d REPORT = user_report_tickets d"
| "get_table d SUGGESTION = user_suggestion_tickets d"

fun set_table :: "database \<Rightarrow> TicketType \<Rightarrow> table \<Rightarrow> database" where
  "set_table d REPORT t = d\<lparr>user_report_tickets := t\<rparr>"
| "set_table d SUGGESTION t = d\<lparr>user_suggestion_tickets := t\<rparr>"

text \<open>\<open>SELECT ticket_id FROM t ORDER BY ticket_id DESC LIMIT 1\<close>: the largest id, if any.\<close>

fun order_desc_limit_1 :: "int list \<Rightarrow> int list" where
  "order_desc_limit_1 [] = []"
| "order_desc_limit_1 (x # xs) = [fold max xs x]"

definition get_id_sql :: "table \<Rightarrow> int list" where
  "get_id_sql t = order_desc_limit_1 (map ticket_id (rows t))"

text \<open>
  Modelled from the spec: the id an auto-increment key gives a new row, one more than the
  largest id the table holds or has ever handed out.
\<close>

definition next_rowid :: "table \<Rightarrow> int" where
  "next_rowid t = (case get_id_sql t of [] \<Rightarrow> max (seq t) 0 + 1 | m # _ \<Rightarrow> max (seq t) m + 1)"

definition insert_row :: "table \<Rightarrow> sqlval \<Rightarrow> sqlval \<Rightarrow> sqlval \<Rightarrow> table" where
  "insert_row t u a m =
     \<lparr>rows = rows t @ [\<lparr>ticket_id = next_rowid t, user_id = u, accused_user_id = a,
                         channel_id = NULL, msg = m\<rparr>],
      seq = next_rowid t\<rparr>"

text \<open>
  \<open>INSERT INTO user_report_tickets (user_id, accused_user_id, channel_id, reason_msg)
  VALUES (?, ?, NULL, ?)\<close> and \<open>INSERT INTO user_suggestion_tickets (user_id, channel_id,
  suggestion_msg) VALUES (?, NULL, ?)\<close>, run with the list of bound values. sqlite3 raises
  \<open>ProgrammingError\<close> when the list has not one value for each placeholder.
\<close>

fun ticket_query :: "TicketType \<Rightarrow> table \<Rightarrow> sqlval list \<Rightarrow> error + table" where
  "ticket_query REPORT t [u, a, m] = Inr (insert_row t u a m)"
| "ticket_query SUGGESTION t [u, m] = Inr (insert_row t u NULL m)"
| "ticket_query _ t _ = Inl ProgrammingError"

text \<open>\<open>UPDATE t SET channel_id = ? WHERE ticket_id = ?\<close>\<close>

definition channel_query :: "table \<Rightarrow> sqlval \<Rightarrow> int \<Rightarrow> table" where
  "channel_query t c i =
     t\<lparr>rows := map (\<lambda>r. if ticket_id r = i then r\<lparr>channel_id := c\<rparr> else r) (rows t)\<rparr>"

text \<open>\<open>SELECT channel_id FROM t WHERE ticket_id=?\<close>\<close>

definition select_channel_id :: "table \<Rightarrow> int \<Rightarrow> sqlval list" where
  "select_channel_id t i = map channel_id (filter (\<lambda>r. ticket_id r = i) (rows t))"

text \<open>\<open>DELETE FROM t WHERE ticket_id=?\<close>\<close>

definition delete_query :: "table \<Rightarrow> int \<Rightarrow> table" where
  "delete_query t i = t\<lparr>rows := filter (\<lambda>r. ticket_id r \<noteq> i) (rows t)\<rparr>"

section \<open>The guild and the world the cog acts on\<close>

type_synonym field = "string \<times> arg \<times> bool"

record embed =
  embed_colour :: int
  embed_title :: string
  embed_fields :: "field list"

record channel =
  chan_id :: int
  chan_name :: string
  category :: int
  messages :: "embed list"

text \<open>What the cog does to the outside, in the order it does it.\<close>

datatype event =
    SqlInsert string
  | SqlSelectLastId string
  | SqlUpdateChannel string int
  | SqlSelectChannel string int
  | SqlDelete string int
  | CreateTextChannel string
  | ChannelSend int
  | ChannelDelete int
  | Followup string
  | SendMessage string

text \<open>
  The state around the cog: the database file, the text channels of \<open>bot.main_guild\<close>, the
  id Discord gives the next channel, the category id of \<open>bot.config\<close>, the outcomes of the
  coming Discord channel calls (\<open>False\<close>: the call raises \<open>HTTPException\<close>; none left: the
  call succeeds) and the trace of effects so far. Replies to the interaction and database
  statements with the right number of values are taken to succeed.
\<close>

record world =
  db :: database
  channels :: "channel list"
  snowflake :: int
  tickets_category :: int
  api :: "bool list"
  trace :: "event list"

definition log :: "event \<Rightarrow> world \<Rightarrow> world" where
  "log e w = w\<lparr>trace := trace w @ [e]\<rparr>"

definition api_ok :: "world \<Rightarrow> bool" where
  "api_ok w = (case api w of [] \<Rightarrow> True | b # _ \<Rightarrow> b)"

definition api_next :: "world \<Rightarrow> world" where
  "api_next w = w\<lparr>api := tl (api w)\<rparr>"

text \<open>\<open>guild.create_text_channel(name=..., category=...)\<close>\<close>

definition create_text_channel :: "world \<Rightarrow> string \<Rightarrow> int \<Rightarrow> world \<times> (error + channel)" where
  "create_text_channel w nm cat =
     (let w1 = api_next (log (CreateTextChannel nm) w) in
      if api_ok w
      then (let ch = \<lparr>chan_id = snowflake w, chan_name = nm, category = cat, messages = []\<rparr>
            in (w1\<lparr>channels := channels w @ [ch], snowflake := snowflake w + 1\<rparr>, Inr ch))
      else (w1, Inl HTTPException))"

text \<open>\<open>channel.send(embed=embed)\<close>\<close>

definition send :: "world \<Rightarrow> channel \<Rightarrow> embed \<Rightarrow> world \<times> (error + unit)" where
  "send w ch e =
     (let w1 = api_next (log (ChannelSend (chan_id ch)) w) in
      if api_ok w
      then (w1\<lparr>channels :=
                 map (\<lambda>c. if chan_id c = chan_id ch then c\<lparr>messages := messages c @ [e]\<rparr> else c)
                   (channels w)\<rparr>, Inr ())
      else (w1, Inl HTTPException))"

text \<open>\<open>guild.get_channel(channel_id)\<close>: \<open>None\<close> unless the guild has a channel of that id.\<close>

fun get_channel :: "world \<Rightarrow> sqlval \<Rightarrow> channel option" where
  "get_channel w (INTEGER i) = find (\<lambda>c. chan_id c = i) (channels w)"
| "get_channel w _ = None"

text \<open>\<open>channel.delete(reason='Ticket closed')\<close>\<close>

definition channel_delete :: "world \<Rightarrow> channel \<Rightarrow> world \<times> (error + unit)" where
  "channel_delete w ch =
     (let w1 = api_next (log (ChannelDelete (chan_id ch)) w) in
      if api_ok w
      then (w1\<lparr>channels := filter (\<lambda>c. chan_id c \<noteq> chan_id ch) (channels w)\<rparr>, Inr ())
      else (w1, Inl HTTPException))"

section \<open>The ticket cog\<close>

text \<open>\<open>Tickets.create_ticket_channel\<close>: a text channel named \<open>{prefix}-ticket-{ticket_id}\<close>.\<close>

definition create_ticket_channel :: "world \<Rightarrow> string \<Rightarrow> int \<Rightarrow> world \<times> (error + channel)" where
  "create_ticket_channel w prefix tid =
     create_text_channel w (prefix @ ''-ticket-'' @ str_int tid) (tickets_category w)"

text \<open>Reading \<open>args[i]\<close>, \<open>.colour\<close> and \<open>.mention\<close>, with the exceptions Python raises.\<close>

definition nth_arg :: "arg list \<Rightarrow> nat \<Rightarrow> error + arg" where
  "nth_arg args i = (if i < length args then Inr (args ! i) else Inl IndexError)"

fun colour_of :: "arg \<Rightarrow> error + int" where
  "colour_of (Member m) = Inr (colour m)"
| "colour_of (Str s) = Inl AttributeError"

fun mention_of :: "arg \<Rightarrow> error + string" where
  "mention_of (Member m) = Inr (mention m)"
| "mention_of (Str s) = Inl AttributeError"

definition add_field :: "embed \<Rightarrow> string \<Rightarrow> arg \<Rightarrow> embed" where
  "add_field e nm v = e\<lparr>embed_fields := embed_fields e @ [(nm, v, False)]\<rparr>"

text \<open>\<open>Tickets.create_ticket_embed\<close>\<close>

definition create_ticket_embed :: "TicketType \<Rightarrow> int \<Rightarrow> arg list \<Rightarrow> error + embed" where
  "create_ticket_embed ticket_type tid args =
     (case nth_arg args 0 of Inl e \<Rightarrow> Inl e | Inr a0 \<Rightarrow>
     (case colour_of a0 of Inl e \<Rightarrow> Inl e | Inr col \<Rightarrow>
     (let emb = \<lparr>embed_colour = col,
                   embed_title = title (name ticket_type) @ '' Ticket #'' @ str_int tid,
                   embed_fields = []\<rparr> in
      if ticket_type = REPORT then
        (case mention_of a0 of Inl e \<Rightarrow> Inl e | Inr m0 \<Rightarrow>
        (let emb = add_field emb ''Accuser'' (Str m0) in
        (case nth_arg args 1 of Inl e \<Rightarrow> Inl e | Inr a1 \<Rightarrow>
        (case mention_of a1 of Inl e \<Rightarrow> Inl e | Inr m1 \<Rightarrow>
        (let emb = add_field emb ''Accusing'' (Str m1) in
        (case nth_arg args 2 of Inl e \<Rightarrow> Inl e | Inr a2 \<Rightarrow>
         Inr (add_field emb ''Reason Given'' a2)))))))
      else
        (case mention_of a0 of Inl e \<Rightarrow> Inl e | Inr m0 \<Rightarrow>
        (let emb = add_field emb ''Suggestion From'' (Str m0) in
        (case nth_arg args 1 of Inl e \<Rightarrow> Inl e | Inr a1 \<Rightarrow>
         Inr (add_field emb ''Suggestion/Feature Request'' a1)))))))"

text \<open>
  The loop of \<open>create_ticket\<close> that turns a \<open>discord.Member\<close> into its id and keeps any
  other value.
\<close>

fun normalize :: "arg \<Rightarrow> sqlval" where
  "normalize (Member m) = INTEGER (member_id m)"
| "normalize (Str s) = TEXT s"

text \<open>
  \<open>args[1] == interaction.user\<close>: discord.py compares users by id, and no string equals a
  user.
\<close>

fun eq_user :: "arg \<Rightarrow> member \<Rightarrow> bool" where
  "eq_user (Member m) u = (member_id m = member_id u)"
| "eq_user (Str s) u = False"

text \<open>The condition of the guard of \<open>create_ticket\<close>: a report whose \<open>args[1]\<close> is the user.\<close>

definition self_report :: "interaction \<Rightarrow> TicketType \<Rightarrow> arg list \<Rightarrow> bool" where
  "self_report interaction ticket_type args =
     (ticket_type = REPORT \<and> 1 < length args \<and> eq_user (args ! 1) (user interaction))"

text \<open>
  The reply to a self-report: the line \<open>You cannot report yourself\<close>, a line feed, and an
  emoticon of seven symbols outside ASCII, given here by the bytes of its UTF-8 encoding.
\<close>

definition SELF_REPORT_MSG :: string where
  "SELF_REPORT_MSG =
     ''You cannot report yourself''
     @ [CHR 0x0A, CHR 0x20, CHR 0x20, CHR 0xE2, CHR 0x95, CHR 0xB0, CHR 0x28, CHR 0xE0, CHR 0xB2,
        CHR 0xA0, CHR 0x20, CHR 0xCD, CHR 0x9F, CHR 0xCA, CHR 0x96, CHR 0x20, CHR 0xE0, CHR 0xB2,
        CHR 0xA0, CHR 0x29, CHR 0xE2, CHR 0x95, CHR 0xAF]"

text \<open>
  The first database block of \<open>create_ticket\<close>: the insert, the commit, and the query for
  the id of the new ticket with \<open>ticket_id[0][0]\<close>.
\<close>

definition write_ticket :: "world \<Rightarrow> TicketType \<Rightarrow> sqlval list \<Rightarrow> world \<times> (error + int)" where
  "write_ticket w ticket_type vals =
     (let w1 = log (SqlInsert (table_name ticket_type)) w in
      case ticket_query ticket_type (get_table (db w) ticket_type) vals of
        Inl e \<Rightarrow> (w1, Inl e)
      | Inr t \<Rightarrow>
          (let w2 = log (SqlSelectLastId (table_name ticket_type))
                      (w1\<lparr>db := set_table (db w) ticket_type t\<rparr>)
           in case get_id_sql t of
                [] \<Rightarrow> (w2, Inl IndexError)
              | tid # _ \<Rightarrow> (w2, Inr tid)))"

text \<open>The second database block of \<open>create_ticket\<close>: the update of \<open>channel_id\<close>.\<close>

definition store_channel :: "world \<Rightarrow> TicketType \<Rightarrow> int \<Rightarrow> int \<Rightarrow> world" where
  "store_channel w ticket_type cid tid =
     log (SqlUpdateChannel (table_name ticket_type) tid)
       (w\<lparr>db := set_table (db w) ticket_type
                  (channel_query (get_table (db w) ticket_type) (INTEGER cid) tid)\<rparr>)"

text \<open>\<open>Tickets.create_ticket\<close>\<close>

definition create_ticket ::
    "world \<Rightarrow> interaction \<Rightarrow> TicketType \<Rightarrow> arg list \<Rightarrow> world \<times> (error + unit)" where
  "create_ticket w interaction ticket_type args =
     (let normalized_sql_values = map normalize args;
          guard = (if ticket_type = REPORT
                   then (case nth_arg args 1 of
                           Inl e \<Rightarrow> Inl e
                         | Inr a1 \<Rightarrow> Inr (eq_user a1 (user interaction)))
                   else Inr False)
      in case guard of
           Inl e \<Rightarrow> (w, Inl e)
         | Inr True \<Rightarrow> (log (Followup SELF_REPORT_MSG) w, Inr ())
         | Inr False \<Rightarrow>
            (case write_ticket w ticket_type normalized_sql_values of
               (w1, Inl e) \<Rightarrow> (w1, Inl e)
             | (w1, Inr tid) \<Rightarrow>
                (case create_ticket_channel w1 (lower (name ticket_type)) tid of
                   (w2, Inl e) \<Rightarrow> (w2, Inl e)
                 | (w2, Inr channel) \<Rightarrow>
                    (let w3 = store_channel w2 ticket_type (chan_id channel) tid in
                     case create_ticket_embed ticket_type tid args of
                       Inl e \<Rightarrow> (w3, Inl e)
                     | Inr emb \<Rightarrow> send w3 channel emb))))"

definition no_ticket_msg :: "TicketType \<Rightarrow> int \<Rightarrow> string" where
  "no_ticket_msg ticket_type tid =
     ''There are no '' @ lower (name ticket_type) @ '' tickets with the id: '' @ str_int tid"

definition TICKET_CLOSED_MSG :: string where
  "TICKET_CLOSED_MSG = ''Ticket closed. The ticket channel has also been deleted.''"

text \<open>
  The lookup of \<open>close_ticket\<close>: the select and \<open>result[0][0]\<close>, which raises \<open>IndexError\<close>
  when no row has the id.
\<close>

definition find_by_id :: "database \<Rightarrow> TicketType \<Rightarrow> int \<Rightarrow> error + sqlval" where
  "find_by_id d ticket_type tid =
     (case select_channel_id (get_table d ticket_type) tid of
        [] \<Rightarrow> Inl IndexError
      | c # _ \<Rightarrow> Inr c)"

text \<open>\<open>Tickets.close_ticket\<close>\<close>

definition close_ticket ::
    "world \<Rightarrow> interaction \<Rightarrow> TicketType \<Rightarrow> int \<Rightarrow> world \<times> (error + unit)" where
  "close_ticket w interaction ticket_type tid =
     (let w1 = log (SqlSelectChannel (table_name ticket_type) tid) w in
      case find_by_id (db w) ticket_type tid of
        Inl e \<Rightarrow> (log (SendMessage (no_ticket_msg ticket_type tid)) w1, Inr ())
      | Inr cid \<Rightarrow>
         (let w2 = log (SqlDelete (table_name ticket_type) tid)
                     (w1\<lparr>db := set_table (db w) ticket_type
                                  (delete_query (get_table (db w) ticket_type) tid)\<rparr>)
          in case get_channel w2 cid of
               None \<Rightarrow> (w2, Inl AttributeError)
             | Some ch \<Rightarrow>
                (case channel_delete w2 ch of
                   (w3, Inl e) \<Rightarrow> (w3, Inl e)
                 | (w3, Inr u) \<Rightarrow> (log (SendMessage TICKET_CLOSED_MSG) w3, Inr ()))))"

section \<open>The log file of a session\<close>

text \<open>
  The logs directory: its files, by name, with their contents; \<open>None\<close> while the directory
  does not exist. \<open>Path(LOGS).mkdir(exist_ok=True)\<close> creates it empty or keeps it.
\<close>

type_synonym directory = "(string \<times> string) list"

definition mkdir_exist_ok :: "directory option \<Rightarrow> directory" where
  "mkdir_exist_ok logs = (case logs of None \<Rightarrow> [] | Some d \<Rightarrow> d)"

text \<open>
  The names the generator of \<open>_open_file\<close> yields for \<open>i = 0, 1, 2, ...\<close>:
  \<open>{timestamp}.txt\<close>, then \<open>{timestamp}_({i}).txt\<close>.
\<close>

definition filename :: "string \<Rightarrow> nat \<Rightarrow> string" where
  "filename timestamp i =
     (if i = 0 then timestamp @ ''.txt'' else timestamp @ ''_('' @ str_nat i @ '').txt'')"

text \<open>
  \<open>Path(...).open('x')\<close>: exclusive creation. It raises \<open>FileExistsError\<close> when the directory
  has a file of that name, and otherwise adds the file, empty, and returns it.
\<close>

definition open_x :: "directory \<Rightarrow> string \<Rightarrow> error + (directory \<times> string)" where
  "open_x d f = (if f \<in> set (map fst d) then Inl FileExistsError else Inr (d @ [(f, [])], f))"

text \<open>The loop of \<open>_open_file\<close> from the \<open>i\<close>-th name on: it ends at the first file it creates.\<close>

partial_function (option) open_from :: "string \<Rightarrow> directory \<Rightarrow> nat \<Rightarrow> (directory \<times> string) option" where
  "open_from timestamp d i =
     (case open_x d (filename timestamp i) of
        Inl e \<Rightarrow> open_from timestamp d (Suc i)
      | Inr r \<Rightarrow> Some r)"

text \<open>\<open>_open_file\<close>, for the timestamp \<open>datetime.now()\<close> is formatted to.\<close>

definition open_file :: "string \<Rightarrow> directory option \<Rightarrow> (directory \<times> string) option" where
  "open_file timestamp logs = open_from timestamp (mkdir_exist_ok logs) 0"

text \<open>
  The number a string of decimal digits stands for; it reads \<open>str_nat\<close> back, which shows
  that two numbers never share a file name.
\<close>

definition digits_value :: "string \<Rightarrow> nat" where
  "digits_value s = foldl (\<lambda>a c. 10 * a + (of_char c - 48)) 0 s"

section \<open>Scenarios\<close>

text \<open>A table that never held a ticket, and a world with two such tables and no channel.\<close>

definition fresh_table :: table where
  "fresh_table = \<lparr>rows = [], seq = 0\<rparr>"

definition fresh_world :: world where
  "fresh_world =
     \<lparr>db = \<lparr>user_report_tickets = fresh_table, user_suggestion_tickets = fresh_table\<rparr>,
      channels = [], snowflake = 1000, tickets_category = 5, api = [], trace = []\<rparr>"

definition member_1 :: member where
  "member_1 = \<lparr>member_id = 1, mention = ''<@1>'', colour = 0\<rparr>"

definition member_42 :: member where
  "member_42 = \<lparr>member_id = 42, mention = ''<@42>'', colour = 0\<rparr>"

text \<open>
  A world with one suggestion ticket, number 1, discussed in channel 1000, in which Discord
  refuses the next call.
\<close>

definition refusing_world :: world where
  "refusing_world =
     \<lparr>db = \<lparr>user_report_tickets = fresh_table,
             user_suggestion_tickets =
               \<lparr>rows = [\<lparr>ticket_id = 1, user_id = INTEGER 42, accused_user_id = NULL,
                          channel_id = INTEGER 1000, msg = TEXT ''add dark mode''\<rparr>],
                seq = 1\<rparr>\<rparr>,
      channels = [\<lparr>chan_id = 1000, chan_name = ''suggestion-ticket-1'', category = 5,
                   messages = []\<rparr>],
      snowflake = 1001, tickets_category = 5, api = [False], trace = []\<rparr>"

text \<open>
  A world whose one report ticket, number 1, was left without a channel, as happens when
  channel creation fails after the insert.
\<close>

definition channelless_world :: world where
  "channelless_world =
     \<lparr>db = \<lparr>user_report_tickets =
               \<lparr>rows = [\<lparr>ticket_id = 1, user_id = INTEGER 1, accused_user_id = INTEGER 42,
                          channel_id = NULL, msg = TEXT ''x''\<rparr>],
                seq = 1\<rparr>,
             user_suggestion_tickets = fresh_table\<rparr>,
      channels = [], snowflake = 1000, tickets_category = 5, api = [], trace = []\<rparr>"

section \<open>Facts about the store\<close>

lemma get_set_table [simp]: "get_table (set_table d ty t) ty = t"
  by (cases ty) simp_all

lemma get_set_table_other [simp]:
  "ty' \<noteq> ty \<Longrightarrow> get_table (set_table d ty t) ty' = get_table d ty'"
  by (cases ty; cases ty') simp_all

lemma find_by_id_absent:
  "find_by_id d ty tid = Inl IndexError \<longleftrightarrow> tid \<notin> ticket_id ` set (rows (get_table d ty))"
proof -
  have "(select_channel_id (get_table d ty) tid = [])
          = (tid \<notin> ticket_id ` set (rows (get_table d ty)))"
    by (auto simp: select_channel_id_def filter_empty_conv)
  then show ?thesis
    by (auto simp: find_by_id_def split: list.splits)
qed

lemma find_by_id_deleted [simp]:
  "find_by_id (set_table d ty (delete_query (get_table d ty) tid)) ty tid = Inl IndexError"
  by (simp add: find_by_id_def select_channel_id_def delete_query_def)

text \<open>The enum names as \<open>lower()\<close> and \<open>title()\<close> render them, and the decimal of 1.\<close>

lemma title_names: "title ''REPORT'' = ''Report''" "title ''SUGGESTION'' = ''Suggestion''"
  by code_simp+

lemma lower_names: "lower ''REPORT'' = ''report''" "lower ''SUGGESTION'' = ''suggestion''"
  by code_simp+

lemma str_int_1: "str_int 1 = ''1''"
  by code_simp

text \<open>The last-id query returns the largest id of a table that has rows.\<close>

lemma order_desc_limit_1_Max:
  "order_desc_limit_1 xs = [Max (set xs)]" if "xs \<noteq> []"
proof (cases xs)
  case Nil
  with that show ?thesis by simp
next
  case (Cons x rest)
  with Max.set_eq_fold [of x rest] show ?thesis by simp
qed

text \<open>The id of a new row is larger than every id in the table.\<close>

lemma next_rowid_gt:
  assumes "r \<in> set (rows t)"
  shows "ticket_id r < next_rowid t"
proof -
  from assms have ne: "map ticket_id (rows t) \<noteq> []" by auto
  have "ticket_id r \<le> Max (set (map ticket_id (rows t)))"
    using assms by (intro Max_ge) auto
  then show ?thesis
    by (simp add: next_rowid_def get_id_sql_def order_desc_limit_1_Max [OF ne])
qed

lemma get_id_sql_insert_row: "get_id_sql (insert_row t u a m) = [next_rowid t]"
proof -
  have "Max (insert (next_rowid t) (ticket_id ` set (rows t))) = next_rowid t"
    by (intro Max_eqI) (auto dest: next_rowid_gt less_imp_le)
  then show ?thesis
    by (simp add: get_id_sql_def insert_row_def order_desc_limit_1_Max)
qed

lemma next_rowid_insert_row: "next_rowid (insert_row t u a m) = next_rowid t + 1"
  unfolding next_rowid_def [of "insert_row t u a m"] get_id_sql_insert_row
  by (simp add: insert_row_def)

lemma ticket_query_Inr:
  assumes "ticket_query ty t vals = Inr t'"
  obtains u a m where "t' = insert_row t u a m"
  using assms by (auto elim!: ticket_query.elims)

lemma ticket_query_length:
  assumes "ticket_query ty t vals = Inr t'"
  shows "length vals = (case ty of REPORT \<Rightarrow> 3 | SUGGESTION \<Rightarrow> 2)"
  using assms by (auto elim!: ticket_query.elims)

lemma filter_absent: "k \<notin> f ` set xs \<Longrightarrow> filter (\<lambda>x. f x = k) xs = []"
  by (induction xs) auto

lemma channel_query_new_row:
  assumes "rows t = old @ [r]" and "ticket_id r = tid" and "tid \<notin> ticket_id ` set old"
  shows "rows (channel_query t c tid) = old @ [r\<lparr>channel_id := c\<rparr>]"
proof -
  have "map (\<lambda>r. if ticket_id r = tid then r\<lparr>channel_id := c\<rparr> else r) old = old"
    using assms(3) by (intro map_idI) auto
  with assms(1,2) show ?thesis
    by (simp add: channel_query_def)
qed

section \<open>Facts about the steps of ticket creation\<close>

lemma write_ticket_Inr:
  assumes "write_ticket w ty vals = (w1, Inr tid)"
  shows "tid = next_rowid (get_table (db w) ty)"
    and "\<exists>r. rows (get_table (db w1) ty) = rows (get_table (db w) ty) @ [r] \<and> ticket_id r = tid"
    and "next_rowid (get_table (db w1) ty) = tid + 1"
proof -
  from assms obtain t' where q: "ticket_query ty (get_table (db w) ty) vals = Inr t'"
    by (auto simp: write_ticket_def Let_def split: sum.splits list.splits)
  then obtain u a m where t': "t' = insert_row (get_table (db w) ty) u a m"
    by (rule ticket_query_Inr)
  from assms q t' have w1: "w1 = log (SqlSelectLastId (table_name ty))
         ((log (SqlInsert (table_name ty)) w)\<lparr>db := set_table (db w) ty t'\<rparr>)"
    and tid: "tid = next_rowid (get_table (db w) ty)"
    by (simp_all add: write_ticket_def Let_def get_id_sql_insert_row)
  show "tid = next_rowid (get_table (db w) ty)" by (rule tid)
  show "\<exists>r. rows (get_table (db w1) ty) = rows (get_table (db w) ty) @ [r] \<and> ticket_id r = tid"
    by (simp add: w1 t' tid log_def insert_row_def)
  show "next_rowid (get_table (db w1) ty) = tid + 1"
    by (simp add: w1 t' tid log_def next_rowid_insert_row)
qed

lemma write_ticket_length:
  assumes "write_ticket w ty vals = (w1, Inr tid)"
  shows "length vals = (case ty of REPORT \<Rightarrow> 3 | SUGGESTION \<Rightarrow> 2)"
proof -
  from assms obtain t' where "ticket_query ty (get_table (db w) ty) vals = Inr t'"
    by (auto simp: write_ticket_def Let_def split: sum.splits list.splits)
  then show ?thesis by (rule ticket_query_length)
qed

lemma create_ticket_channel_Inr:
  assumes "create_ticket_channel w1 prefix tid = (w2, Inr ch)"
  shows "db w2 = db w1" and "chan_id ch = snowflake w1" and "channels w2 = channels w1 @ [ch]"
    and "chan_name ch = prefix @ ''-ticket-'' @ str_int tid"
  using assms
  by (auto simp: create_ticket_channel_def create_text_channel_def Let_def log_def api_next_def
      split: if_splits)

lemma send_db [simp]: "db (fst (send w ch e)) = db w"
  by (simp add: send_def Let_def log_def api_next_def)

lemma store_channel_db [simp]:
  "db (store_channel w ty cid tid)
     = set_table (db w) ty (channel_query (get_table (db w) ty) (INTEGER cid) tid)"
  by (simp add: store_channel_def log_def)

text \<open>A creation that is no self-report and whose insert succeeds has passed the guard.\<close>

lemma guard_passes:
  assumes "\<not> self_report interaction ty args"
    and "write_ticket w ty (map normalize args) = (w1, Inr tid)"
  shows "(if ty = REPORT
          then (case nth_arg args 1 of
                  Inl e \<Rightarrow> Inl e
                | Inr a1 \<Rightarrow> Inr (eq_user a1 (user interaction)))
          else Inr False) = Inr False"
  using assms(1) write_ticket_length [OF assms(2)]
  by (cases ty) (simp_all add: self_report_def nth_arg_def)

text \<open>The database after a creation that got as far as the channel.\<close>

lemma create_ticket_db:
  assumes "\<not> self_report interaction ty args"
    and "write_ticket w ty (map normalize args) = (w1, Inr tid)"
    and "create_ticket_channel w1 (lower (name ty)) tid = (w2, Inr ch)"
  shows "db (fst (create_ticket w interaction ty args))
           = set_table (db w1) ty (channel_query (get_table (db w1) ty) (INTEGER (chan_id ch)) tid)"
proof -
  have "db w2 = db w1"
    using create_ticket_channel_Inr(1) [OF assms(3)] .
  then show ?thesis
    unfolding create_ticket_def Let_def guard_passes [OF assms(1,2)]
    by (simp add: assms(2,3) split: sum.splits)
qed

lemma create_ticket_rows:
  assumes "\<not> self_report interaction ty args"
    and "write_ticket w ty (map normalize args) = (w1, Inr tid)"
    and "create_ticket_channel w1 (lower (name ty)) tid = (w2, Inr ch)"
  shows "\<exists>r. rows (get_table (db w1) ty) = rows (get_table (db w) ty) @ [r]
           \<and> ticket_id r = tid
           \<and> tid \<notin> ticket_id ` set (rows (get_table (db w) ty))
           \<and> rows (get_table (db (fst (create_ticket w interaction ty args))) ty)
               = rows (get_table (db w) ty) @ [r\<lparr>channel_id := INTEGER (chan_id ch)\<rparr>]"
proof -
  note f = write_ticket_Inr [OF assms(2)]
  from f(2) obtain r where r: "rows (get_table (db w1) ty) = rows (get_table (db w) ty) @ [r]"
      "ticket_id r = tid"
    by blast
  have fresh: "tid \<notin> ticket_id ` set (rows (get_table (db w) ty))"
  proof
    assume "tid \<in> ticket_id ` set (rows (get_table (db w) ty))"
    then obtain x where "x \<in> set (rows (get_table (db w) ty))" "ticket_id x = tid"
      by auto
    with next_rowid_gt [of x "get_table (db w) ty"] f(1) show False
      by simp
  qed
  have "rows (get_table (db (fst (create_ticket w interaction ty args))) ty)
          = rows (get_table (db w) ty) @ [r\<lparr>channel_id := INTEGER (chan_id ch)\<rparr>]"
    by (simp add: create_ticket_db [OF assms] channel_query_new_row [OF r fresh])
  with r fresh show ?thesis by blast
qed

text \<open>A report of member 42 by member 1 in the fresh world runs to its end.\<close>

lemma report_runs:
  "snd (create_ticket fresh_world \<lparr>user = member_1\<rparr> REPORT
          [Member member_1, Member member_42, Str ''x'']) = Inr ()"
  by (simp add: create_ticket_def write_ticket_def create_ticket_channel_def
      create_text_channel_def store_channel_def send_def log_def api_ok_def api_next_def
      create_ticket_embed_def nth_arg_def add_field_def
      fresh_world_def fresh_table_def insert_row_def next_rowid_def get_id_sql_def
      channel_query_def member_1_def member_42_def Let_def)

lemma report_write:
  "write_ticket fresh_world REPORT (map normalize [Member member_1, Member member_42, Str ''x''])
     = (fresh_world
         \<lparr>db := \<lparr>user_report_tickets =
                    \<lparr>rows = [\<lparr>ticket_id = 1, user_id = INTEGER 1, accused_user_id = INTEGER 42,
                               channel_id = NULL, msg = TEXT ''x''\<rparr>],
                     seq = 1\<rparr>,
                  user_suggestion_tickets = fresh_table\<rparr>,
           trace := [SqlInsert ''user_report_tickets'', SqlSelectLastId ''user_report_tickets'']\<rparr>,
        Inr 1)"
  by (simp add: write_ticket_def log_def fresh_world_def fresh_table_def insert_row_def
      next_rowid_def get_id_sql_def member_1_def member_42_def Let_def)

lemma report_not_self:
  "\<not> self_report \<lparr>user = member_1\<rparr> REPORT [Member member_1, Member member_42, Str ''x'']"
  by (simp add: self_report_def member_1_def member_42_def)

lemma report_channel:
  "create_ticket_channel
      (fresh_world
         \<lparr>db := \<lparr>user_report_tickets =
                    \<lparr>rows = [\<lparr>ticket_id = 1, user_id = INTEGER 1, accused_user_id = INTEGER 42,
                               channel_id = NULL, msg = TEXT ''x''\<rparr>],
                     seq = 1\<rparr>,
                  user_suggestion_tickets = fresh_table\<rparr>,
           trace := [SqlInsert ''user_report_tickets'', SqlSelectLastId ''user_report_tickets'']\<rparr>)
      (lower (name REPORT)) 1
    = (fst (create_ticket_channel
      (fresh_world
         \<lparr>db := \<lparr>user_report_tickets =
                    \<lparr>rows = [\<lparr>ticket_id = 1, user_id = INTEGER 1, accused_user_id = INTEGER 42,
                               channel_id = NULL, msg = TEXT ''x''\<rparr>],
                     seq = 1\<rparr>,
                  user_suggestion_tickets = fresh_table\<rparr>,
           trace := [SqlInsert ''user_report_tickets'', SqlSelectLastId ''user_report_tickets'']\<rparr>)
      (lower (name REPORT)) 1),
       Inr \<lparr>chan_id = 1000, chan_name = ''report-ticket-1'', category = 5, messages = []\<rparr>)"
  by (simp add: create_ticket_channel_def create_text_channel_def log_def api_ok_def api_next_def
      fresh_world_def lower_names str_int_1 Let_def)

text \<open>The database and the trace across the steps that follow the insert.\<close>

lemma create_ticket_channel_db: "db (fst (create_ticket_channel w prefix tid)) = db w"
  by (simp add: create_ticket_channel_def create_text_channel_def Let_def log_def api_next_def)

lemma create_ticket_channel_trace:
  "\<exists>rest. trace (fst (create_ticket_channel w prefix tid))
            = trace w @ [CreateTextChannel (prefix @ ''-ticket-'' @ str_int tid)] @ rest"
  by (simp add: create_ticket_channel_def create_text_channel_def Let_def log_def api_next_def)

lemma send_trace: "trace (fst (send w ch e)) = trace w @ [ChannelSend (chan_id ch)]"
  by (simp add: send_def Let_def log_def api_next_def)

lemma store_channel_trace:
  "trace (store_channel w ty cid tid) = trace w @ [SqlUpdateChannel (table_name ty) tid]"
  by (simp add: store_channel_def log_def)

lemma write_ticket_trace:
  assumes "write_ticket w ty vals = (w1, Inr tid)"
  shows "trace w1 = trace w @ [SqlInsert (table_name ty), SqlSelectLastId (table_name ty)]"
  using assms
  by (auto simp: write_ticket_def Let_def log_def split: sum.splits list.splits)

lemma ticket_ids_channel_query [simp]:
  "map ticket_id (rows (channel_query t c i)) = map ticket_id (rows t)"
  by (simp add: channel_query_def o_def cong: map_cong)

lemma next_rowid_channel_query [simp]: "next_rowid (channel_query t c i) = next_rowid t"
proof -
  have same: "seq (channel_query t c i) = seq t"
    by (simp add: channel_query_def)
  show ?thesis
    unfolding next_rowid_def get_id_sql_def ticket_ids_channel_query same ..
qed

lemma create_ticket_channel_result:
  assumes "create_ticket_channel w prefix tid = (w2, r)"
  shows "db w2 = db w"
    and "\<exists>rest. trace w2 = trace w @ [CreateTextChannel (prefix @ ''-ticket-'' @ str_int tid)] @ rest"
  using create_ticket_channel_db [of w prefix tid] create_ticket_channel_trace [of w prefix tid]
    assms by simp_all

text \<open>What a creation leaves behind once its insert has succeeded, whatever comes after.\<close>

lemma create_ticket_after_insert:
  assumes "\<not> self_report interaction ty args"
    and "write_ticket w ty (map normalize args) = (w1, Inr tid)"
  shows "map ticket_id (rows (get_table (db (fst (create_ticket w interaction ty args))) ty))
           = map ticket_id (rows (get_table (db w) ty)) @ [tid]
         \<and> next_rowid (get_table (db (fst (create_ticket w interaction ty args))) ty) = tid + 1
         \<and> (\<exists>rest. trace (fst (create_ticket w interaction ty args))
               = trace w @ [SqlInsert (table_name ty), SqlSelectLastId (table_name ty),
                            CreateTextChannel (lower (name ty) @ ''-ticket-'' @ str_int tid)]
                   @ rest)"
proof -
  note f = write_ticket_Inr [OF assms(2)]
  from f(2) have ids1: "map ticket_id (rows (get_table (db w1) ty))
      = map ticket_id (rows (get_table (db w) ty)) @ [tid]"
    by auto
  obtain w2 r where cc: "create_ticket_channel w1 (lower (name ty)) tid = (w2, r)"
    by (cases "create_ticket_channel w1 (lower (name ty)) tid")
  note c = create_ticket_channel_result [OF cc]
  from c(2) write_ticket_trace [OF assms(2)]
  obtain rest2 where tr2: "trace w2 = trace w @ [SqlInsert (table_name ty),
      SqlSelectLastId (table_name ty),
      CreateTextChannel (lower (name ty) @ ''-ticket-'' @ str_int tid)] @ rest2"
    by auto
  show ?thesis
  proof (cases r)
    case (Inl e)
    then have "fst (create_ticket w interaction ty args) = w2"
      unfolding create_ticket_def Let_def guard_passes [OF assms]
      by (simp add: assms(2) cc)
    with c(1) ids1 f(3) tr2 show ?thesis
      by simp
  next
    case (Inr ch)
    define w3 where "w3 = store_channel w2 ty (chan_id ch) tid"
    have db3: "db w3 = set_table (db w1) ty
        (channel_query (get_table (db w1) ty) (INTEGER (chan_id ch)) tid)"
      by (simp add: w3_def c(1))
    have tr3: "trace w3 = trace w2 @ [SqlUpdateChannel (table_name ty) tid]"
      by (simp add: w3_def store_channel_trace)
    have final: "fst (create_ticket w interaction ty args)
        = fst (case create_ticket_embed ty tid args of
                 Inl e \<Rightarrow> (w3, Inl e)
               | Inr emb \<Rightarrow> send w3 ch emb)"
      unfolding create_ticket_def Let_def guard_passes [OF assms] w3_def
      by (simp add: assms(2) cc Inr)
    have "db (fst (create_ticket w interaction ty args)) = db w3"
      unfolding final by (simp split: sum.splits)
    moreover have "\<exists>more. trace (fst (create_ticket w interaction ty args)) = trace w3 @ more"
      unfolding final by (simp add: send_trace split: sum.splits)
    ultimately show ?thesis
      using db3 tr3 tr2 ids1 f(3) by auto
  qed
qed

text \<open>
  The world after the report of member 42 by member 1 in the fresh world, and the insert of
  a second report, of member 1 by member 42, in that world.
\<close>

lemma first_report_world:
  "fst (create_ticket fresh_world \<lparr>user = member_1\<rparr> REPORT
          [Member member_1, Member member_42, Str ''x''])
   = fresh_world
       \<lparr>db := \<lparr>user_report_tickets =
                  \<lparr>rows = [\<lparr>ticket_id = 1, user_id = INTEGER 1, accused_user_id = INTEGER 42,
                             channel_id = INTEGER 1000, msg = TEXT ''x''\<rparr>],
                   seq = 1\<rparr>,
                user_suggestion_tickets = fresh_table\<rparr>,
         channels :=
           [\<lparr>chan_id = 1000, chan_name = ''report-ticket-1'', category = 5,
              messages =
                [\<lparr>embed_colour = 0, embed_title = ''Report Ticket #1'',
                   embed_fields =
                     [(''Accuser'', Str ''<@1>'', False), (''Accusing'', Str ''<@42>'', False),
                      (''Reason Given'', Str ''x'', False)]\<rparr>]\<rparr>],
         snowflake := 1001,
         trace := [SqlInsert ''user_report_tickets'', SqlSelectLastId ''user_report_tickets'',
                   CreateTextChannel ''report-ticket-1'',
                   SqlUpdateChannel ''user_report_tickets'' 1, ChannelSend 1000]\<rparr>"
  by (simp add: create_ticket_def write_ticket_def create_ticket_channel_def
      create_text_channel_def store_channel_def send_def log_def api_ok_def api_next_def
      create_ticket_embed_def nth_arg_def add_field_def title_names lower_names str_int_1
      fresh_world_def fresh_table_def insert_row_def next_rowid_def get_id_sql_def
      channel_query_def member_1_def member_42_def Let_def)

lemma second_report_write:
  "snd (write_ticket
          (fst (create_ticket fresh_world \<lparr>user = member_1\<rparr> REPORT
                  [Member member_1, Member member_42, Str ''x'']))
          REPORT (map normalize [Member member_42, Member member_1, Str ''y''])) = Inr 2"
  unfolding first_report_world
  by (simp add: write_ticket_def log_def fresh_world_def fresh_table_def insert_row_def
      next_rowid_def get_id_sql_def member_1_def member_42_def Let_def)

lemma second_report_not_self:
  "\<not> self_report \<lparr>user = member_42\<rparr> REPORT [Member member_42, Member member_1, Str ''y'']"
  by (simp add: self_report_def member_1_def member_42_def)

section \<open>Properties of ticket creation and closing\<close>

text \<open>
  C1. A report whose accused user (\<open>args[1]\<close>) is the reporting user (\<open>interaction.user\<close>,
  compared by id as discord.py does) is rejected: \<open>create_ticket\<close> sends the self-report
  rebuff and returns, and the world is the one before with that single reply added to the
  trace. No statement runs against either table and no channel is created: the database and
  the channels are unchanged.
\<close>

theorem create_ticket_self_report:
  assumes "1 < length args" and "args ! 1 = Member accused"
    and "member_id accused = member_id (user interaction)"
  shows "create_ticket w interaction REPORT args
           = (w\<lparr>trace := trace w @ [Followup SELF_REPORT_MSG]\<rparr>, Inr ())
         \<and> db (fst (create_ticket w interaction REPORT args)) = db w
         \<and> channels (fst (create_ticket w interaction REPORT args)) = channels w"
  using assms by (simp add: create_ticket_def nth_arg_def log_def)

theorem create_ticket_self_report_witness:
  "1 < length [Member member_1, Member member_1, Str ''x'']
   \<and> [Member member_1, Member member_1, Str ''x''] ! 1 = Member member_1
   \<and> member_id member_1 = member_id (user \<lparr>user = member_1\<rparr>)
   \<and> create_ticket fresh_world \<lparr>user = member_1\<rparr> REPORT
         [Member member_1, Member member_1, Str ''x'']
       = (fresh_world\<lparr>trace := [Followup SELF_REPORT_MSG]\<rparr>, Inr ())
   \<and> db (fst (create_ticket fresh_world \<lparr>user = member_1\<rparr> REPORT
         [Member member_1, Member member_1, Str ''x''])) = db fresh_world"
  using create_ticket_self_report [of "[Member member_1, Member member_1, Str ''x'']" member_1
      "\<lparr>user = member_1\<rparr>" fresh_world]
  by (simp add: fresh_world_def)

text \<open>What \<open>close_ticket\<close> does to the database and the trace when the ticket exists.\<close>

lemma close_ticket_db:
  assumes "find_by_id (db w) ticket_type tid = Inr cid"
  shows "db (fst (close_ticket w interaction ticket_type tid))
           = set_table (db w) ticket_type (delete_query (get_table (db w) ticket_type) tid)"
  using assms
  by (simp add: close_ticket_def log_def channel_delete_def api_next_def Let_def
      split: option.splits)

lemma close_ticket_trace:
  assumes "find_by_id (db w) ticket_type tid = Inr cid"
    and "close_ticket w interaction ticket_type tid = (w', res)"
  shows "\<exists>rest. trace w' = trace w @ [SqlSelectChannel (table_name ticket_type) tid,
                                      SqlDelete (table_name ticket_type) tid] @ rest
           \<and> ((res = Inl AttributeError \<and> rest = [])
              \<or> (\<exists>c. res = Inl HTTPException \<and> rest = [ChannelDelete c])
              \<or> (\<exists>c. res = Inr () \<and> rest = [ChannelDelete c, SendMessage TICKET_CLOSED_MSG]))"
  using assms
  by (auto simp: close_ticket_def log_def channel_delete_def api_next_def Let_def
      split: option.splits if_splits)

text \<open>
  C2, as the code has it. For every existing ticket, \<open>close_ticket\<close> runs the row delete
  right after the lookup and before any channel teardown: the trace gains the select, then
  the delete, and only then the call that deletes the channel. So whatever the teardown
  does (no such channel, a refusal by Discord, or success), the row is gone afterwards.
\<close>

theorem close_ticket_deletes_row_first:
  assumes "find_by_id (db w) ticket_type tid = Inr cid"
    and "close_ticket w interaction ticket_type tid = (w', res)"
  shows "find_by_id (db w') ticket_type tid = Inl IndexError
         \<and> (\<exists>rest. trace w' = trace w @ [SqlSelectChannel (table_name ticket_type) tid,
                                          SqlDelete (table_name ticket_type) tid] @ rest
               \<and> ((res = Inl AttributeError \<and> rest = [])
                  \<or> (\<exists>c. res = Inl HTTPException \<and> rest = [ChannelDelete c])
                  \<or> (\<exists>c. res = Inr ()
                          \<and> rest = [ChannelDelete c, SendMessage TICKET_CLOSED_MSG])))"
proof -
  have "db w' = set_table (db w) ticket_type (delete_query (get_table (db w) ticket_type) tid)"
    using close_ticket_db [OF assms(1), of interaction] assms(2) by simp
  then have "find_by_id (db w') ticket_type tid = Inl IndexError"
    by simp
  with close_ticket_trace [OF assms] show ?thesis
    by blast
qed

theorem close_ticket_deletes_row_first_witness:
  "find_by_id (db channelless_world) REPORT 1 = Inr NULL
   \<and> snd (close_ticket channelless_world \<lparr>user = member_1\<rparr> REPORT 1) = Inl AttributeError
   \<and> find_by_id (db (fst (close_ticket channelless_world \<lparr>user = member_1\<rparr> REPORT 1))) REPORT 1
       = Inl IndexError"
proof -
  have found: "find_by_id (db channelless_world) REPORT 1 = Inr NULL"
    by (simp add: channelless_world_def find_by_id_def select_channel_id_def)
  have res: "snd (close_ticket channelless_world \<lparr>user = member_1\<rparr> REPORT 1) = Inl AttributeError"
    by (simp add: close_ticket_def find_by_id_def select_channel_id_def log_def
        channelless_world_def)
  from close_ticket_deletes_row_first [OF found prod.collapse [symmetric]] found res
  show ?thesis by blast
qed

text \<open>
  The claim as the spec words it fails: in a world where ticket 1 exists and Discord refuses
  the channel deletion, \<open>close_ticket\<close> raises, the teardown call comes after the delete
  statement, and the row is no longer to be found.
\<close>

theorem teardown_before_delete_counterexample:
  "find_by_id (db refusing_world) SUGGESTION 1 = Inr (INTEGER 1000)
   \<and> snd (close_ticket refusing_world \<lparr>user = member_1\<rparr> SUGGESTION 1) = Inl HTTPException
   \<and> find_by_id (db (fst (close_ticket refusing_world \<lparr>user = member_1\<rparr> SUGGESTION 1)))
        SUGGESTION 1 = Inl IndexError
   \<and> trace (fst (close_ticket refusing_world \<lparr>user = member_1\<rparr> SUGGESTION 1))
       = [SqlSelectChannel ''user_suggestion_tickets'' 1, SqlDelete ''user_suggestion_tickets'' 1,
          ChannelDelete 1000]"
  by (simp add: refusing_world_def fresh_table_def close_ticket_def find_by_id_def
      select_channel_id_def delete_query_def log_def channel_delete_def api_next_def api_ok_def)

text \<open>
  C5. Closing a ticket id that the partition of the given type does not hold replies
  \<open>There are no {type} tickets with the id: {id}\<close> and returns. The world afterwards is the
  one before with the select and that reply added to the trace: no delete statement runs,
  no channel call is made, the database and the channels are unchanged.
\<close>

theorem close_ticket_not_found:
  assumes "tid \<notin> ticket_id ` set (rows (get_table (db w) ticket_type))"
  shows "close_ticket w interaction ticket_type tid
           = (w\<lparr>trace := trace w @ [SqlSelectChannel (table_name ticket_type) tid,
                                     SendMessage (no_ticket_msg ticket_type tid)]\<rparr>, Inr ())
         \<and> db (fst (close_ticket w interaction ticket_type tid)) = db w
         \<and> channels (fst (close_ticket w interaction ticket_type tid)) = channels w"
proof -
  from assms have "find_by_id (db w) ticket_type tid = Inl IndexError"
    by (simp add: find_by_id_absent)
  then show ?thesis
    by (simp add: close_ticket_def log_def)
qed

lemma no_report_ticket_999:
  "no_ticket_msg REPORT 999 = ''There are no report tickets with the id: 999''"
  by code_simp

theorem close_ticket_not_found_witness:
  "999 \<notin> ticket_id ` set (rows (get_table (db fresh_world) REPORT))
   \<and> close_ticket fresh_world \<lparr>user = member_1\<rparr> REPORT 999
       = (fresh_world\<lparr>trace := [SqlSelectChannel ''user_report_tickets'' 999,
             SendMessage ''There are no report tickets with the id: 999'']\<rparr>, Inr ())"
  using close_ticket_not_found [of 999 fresh_world REPORT "\<lparr>user = member_1\<rparr>"]
    no_report_ticket_999
  by (simp add: fresh_world_def fresh_table_def)

text \<open>
  C6. When \<open>close_ticket\<close> succeeds on an existing ticket, a lookup of the same type and id
  afterwards raises \<open>IndexError\<close> (not found): the partition holds the rows it held before
  but those of that id.
\<close>

theorem close_then_find:
  assumes "find_by_id (db w) ticket_type tid = Inr cid"
    and "close_ticket w interaction ticket_type tid = (w', Inr ())"
  shows "find_by_id (db w') ticket_type tid = Inl IndexError
         \<and> rows (get_table (db w') ticket_type)
             = filter (\<lambda>r. ticket_id r \<noteq> tid) (rows (get_table (db w) ticket_type))"
proof -
  have "db w' = set_table (db w) ticket_type (delete_query (get_table (db w) ticket_type) tid)"
    using close_ticket_db [OF assms(1), of interaction] assms(2) by simp
  then have "find_by_id (db w') ticket_type tid = Inl IndexError"
    and "rows (get_table (db w') ticket_type)
           = filter (\<lambda>r. ticket_id r \<noteq> tid) (rows (get_table (db w) ticket_type))"
    by (simp_all add: delete_query_def [of "get_table (db w) ticket_type"] del: find_by_id_deleted)
      (simp add: find_by_id_def select_channel_id_def)
  then show ?thesis
    by simp
qed

theorem close_then_find_witness:
  "find_by_id (db (refusing_world\<lparr>api := []\<rparr>)) SUGGESTION 1 = Inr (INTEGER 1000)
   \<and> snd (close_ticket (refusing_world\<lparr>api := []\<rparr>) \<lparr>user = member_1\<rparr> SUGGESTION 1) = Inr ()
   \<and> find_by_id (db (fst (close_ticket (refusing_world\<lparr>api := []\<rparr>) \<lparr>user = member_1\<rparr>
        SUGGESTION 1))) SUGGESTION 1 = Inl IndexError"
proof -
  have found: "find_by_id (db (refusing_world\<lparr>api := []\<rparr>)) SUGGESTION 1 = Inr (INTEGER 1000)"
    by (simp add: refusing_world_def find_by_id_def select_channel_id_def)
  have res: "snd (close_ticket (refusing_world\<lparr>api := []\<rparr>) \<lparr>user = member_1\<rparr> SUGGESTION 1)
               = Inr ()"
    by (simp add: close_ticket_def find_by_id_def select_channel_id_def log_def
        channel_delete_def api_next_def api_ok_def refusing_world_def)
  have "close_ticket (refusing_world\<lparr>api := []\<rparr>) \<lparr>user = member_1\<rparr> SUGGESTION 1
          = (fst (close_ticket (refusing_world\<lparr>api := []\<rparr>) \<lparr>user = member_1\<rparr> SUGGESTION 1),
             Inr ())"
    using res by (simp add: prod_eq_iff)
  from close_then_find [OF found this] found res
  show ?thesis by blast
qed

text \<open>
  C8. The summary has its fields in a fixed order. For a report: \<open>Accuser\<close> with the mention
  of the reporting member, then \<open>Accusing\<close> with the mention of the accused, then
  \<open>Reason Given\<close> with the reason. For a suggestion: \<open>Suggestion From\<close> with the mention of
  the submitter, then \<open>Suggestion/Feature Request\<close> with the text.
\<close>

theorem create_ticket_embed_fields:
  "create_ticket_embed REPORT tid [Member accuser, Member accused, reason]
     = Inr \<lparr>embed_colour = colour accuser,
            embed_title = ''Report Ticket #'' @ str_int tid,
            embed_fields = [(''Accuser'', Str (mention accuser), False),
                            (''Accusing'', Str (mention accused), False),
                            (''Reason Given'', reason, False)]\<rparr>
   \<and> create_ticket_embed SUGGESTION tid [Member submitter, suggestion]
     = Inr \<lparr>embed_colour = colour submitter,
            embed_title = ''Suggestion Ticket #'' @ str_int tid,
            embed_fields = [(''Suggestion From'', Str (mention submitter), False),
                            (''Suggestion/Feature Request'', suggestion, False)]\<rparr>"
  by (simp add: create_ticket_embed_def nth_arg_def add_field_def title_names)

text \<open>
  C7, as the code has it. In a world whose tables never held a ticket, a suggestion by a
  member of id 42 with the text \<open>add dark mode\<close> gets ticket id 1 and a channel named
  \<open>suggestion-ticket-1\<close>, whose id is stored in the row, and the summary posted there has
  exactly two fields, in this order: \<open>Suggestion From\<close> with the member's \<open>mention\<close>
  (whatever it is; not the bare id) and \<open>Suggestion/Feature Request\<close> with the text.
\<close>

theorem suggestion_scenario:
  "create_ticket fresh_world \<lparr>user = \<lparr>member_id = 42, mention = m, colour = c\<rparr>\<rparr> SUGGESTION
       [Member \<lparr>member_id = 42, mention = m, colour = c\<rparr>, Str ''add dark mode'']
     = (fresh_world
          \<lparr>db := \<lparr>user_report_tickets = fresh_table,
                   user_suggestion_tickets =
                     \<lparr>rows = [\<lparr>ticket_id = 1, user_id = INTEGER 42, accused_user_id = NULL,
                                channel_id = INTEGER 1000, msg = TEXT ''add dark mode''\<rparr>],
                      seq = 1\<rparr>\<rparr>,
            channels :=
              [\<lparr>chan_id = 1000, chan_name = ''suggestion-ticket-1'', category = 5,
                 messages =
                   [\<lparr>embed_colour = c, embed_title = ''Suggestion Ticket #1'',
                      embed_fields =
                        [(''Suggestion From'', Str m, False),
                         (''Suggestion/Feature Request'', Str ''add dark mode'', False)]\<rparr>]\<rparr>],
            snowflake := 1001,
            trace := [SqlInsert ''user_suggestion_tickets'',
                      SqlSelectLastId ''user_suggestion_tickets'',
                      CreateTextChannel ''suggestion-ticket-1'',
                      SqlUpdateChannel ''user_suggestion_tickets'' 1,
                      ChannelSend 1000]\<rparr>, Inr ())"
  by (simp add: create_ticket_def write_ticket_def create_ticket_channel_def
      create_text_channel_def store_channel_def send_def log_def api_ok_def api_next_def
      create_ticket_embed_def nth_arg_def add_field_def title_names lower_names str_int_1
      fresh_world_def fresh_table_def insert_row_def next_rowid_def get_id_sql_def
      channel_query_def Let_def)

text \<open>
  The claim as the spec words it fails: for the member of id 42, whose mention is \<open><@42>\<close>,
  the fields posted are not \<open>Suggestion From: 42\<close> and
  \<open>Suggestion/Feature Request: add dark mode\<close>.
\<close>

theorem suggestion_from_42_counterexample:
  "map embed_fields (concat (map messages (channels (fst
      (create_ticket fresh_world \<lparr>user = member_42\<rparr> SUGGESTION
         [Member member_42, Str ''add dark mode''])))))
   \<noteq> [[(''Suggestion From'', Str ''42'', False),
        (''Suggestion/Feature Request'', Str ''add dark mode'', False)]]"
  by (simp add: create_ticket_def write_ticket_def create_ticket_channel_def
      create_text_channel_def store_channel_def send_def log_def api_ok_def api_next_def
      create_ticket_embed_def nth_arg_def add_field_def title_names lower_names str_int_1
      fresh_world_def fresh_table_def insert_row_def next_rowid_def get_id_sql_def
      channel_query_def member_42_def Let_def)

text \<open>
  C3. Take a run of calls of \<open>create_ticket\<close> for one ticket type, each started in the world
  the one before left (no other call and no deletion between them), each past the guard
  and with its insert accepted, whatever the channel steps do afterwards. In every call the
  id the last-id query returns is the id of the row that call inserted: it is the id
  \<open>create_ticket\<close> names the channel after, and the table afterwards holds the ids it held
  before the run followed by the ids returned so far, in order. The returned ids go up by
  one from call to call, starting at the next id of the table: strictly increasing, with
  no gap. That the query reads the new row back is the code's; that the new id is the next
  one is the auto-increment key of the schema, which is modelled from the spec.
\<close>

theorem sequential_ids:
  assumes "length ws = Suc (length reqs)"
    and "\<forall>k<length reqs.
           \<not> self_report (fst (reqs ! k)) ticket_type (snd (reqs ! k))
           \<and> (\<exists>w1 tid. write_ticket (ws ! k) ticket_type (map normalize (snd (reqs ! k)))
                          = (w1, Inr tid))
           \<and> ws ! Suc k
               = fst (create_ticket (ws ! k) (fst (reqs ! k)) ticket_type (snd (reqs ! k)))"
  shows "\<forall>k<length reqs.
           (\<exists>w1. write_ticket (ws ! k) ticket_type (map normalize (snd (reqs ! k)))
                   = (w1, Inr (next_rowid (get_table (db (ws ! 0)) ticket_type) + int k)))
           \<and> (\<exists>rest. trace (ws ! Suc k)
                 = trace (ws ! k)
                   @ [SqlInsert (table_name ticket_type), SqlSelectLastId (table_name ticket_type),
                      CreateTextChannel
                        (lower (name ticket_type) @ ''-ticket-''
                         @ str_int (next_rowid (get_table (db (ws ! 0)) ticket_type) + int k))]
                   @ rest)
           \<and> map ticket_id (rows (get_table (db (ws ! Suc k)) ticket_type))
               = map ticket_id (rows (get_table (db (ws ! 0)) ticket_type))
                 @ map (\<lambda>j. next_rowid (get_table (db (ws ! 0)) ticket_type) + int j) [0..<Suc k]"
proof -
  define first where "first = next_rowid (get_table (db (ws ! 0)) ticket_type)"
  define ids where "ids k = map ticket_id (rows (get_table (db (ws ! k)) ticket_type))" for k
  have step1: "\<exists>w1. write_ticket (ws ! k) ticket_type (map normalize (snd (reqs ! k)))
                   = (w1, Inr (next_rowid (get_table (db (ws ! k)) ticket_type)))"
    and step2: "\<exists>rest. trace (ws ! Suc k)
                 = trace (ws ! k)
                   @ [SqlInsert (table_name ticket_type), SqlSelectLastId (table_name ticket_type),
                      CreateTextChannel
                        (lower (name ticket_type) @ ''-ticket-''
                         @ str_int (next_rowid (get_table (db (ws ! k)) ticket_type)))]
                   @ rest"
    and step3: "ids (Suc k) = ids k @ [next_rowid (get_table (db (ws ! k)) ticket_type)]"
    and step4: "next_rowid (get_table (db (ws ! Suc k)) ticket_type)
           = next_rowid (get_table (db (ws ! k)) ticket_type) + 1"
    if "k < length reqs" for k
  proof -
    from that assms(2) obtain w1 tid where
      ns: "\<not> self_report (fst (reqs ! k)) ticket_type (snd (reqs ! k))"
      and wt: "write_ticket (ws ! k) ticket_type (map normalize (snd (reqs ! k))) = (w1, Inr tid)"
      and nxt: "ws ! Suc k
               = fst (create_ticket (ws ! k) (fst (reqs ! k)) ticket_type (snd (reqs ! k)))"
      by blast
    have tid: "tid = next_rowid (get_table (db (ws ! k)) ticket_type)"
      by (rule write_ticket_Inr(1) [OF wt])
    note a = create_ticket_after_insert [OF ns wt, folded nxt]
    from wt tid show "\<exists>w1. write_ticket (ws ! k) ticket_type (map normalize (snd (reqs ! k)))
                   = (w1, Inr (next_rowid (get_table (db (ws ! k)) ticket_type)))"
      by blast
    from a tid show "\<exists>rest. trace (ws ! Suc k)
                 = trace (ws ! k)
                   @ [SqlInsert (table_name ticket_type), SqlSelectLastId (table_name ticket_type),
                      CreateTextChannel
                        (lower (name ticket_type) @ ''-ticket-''
                         @ str_int (next_rowid (get_table (db (ws ! k)) ticket_type)))]
                   @ rest"
      by blast
    from a tid show "ids (Suc k) = ids k @ [next_rowid (get_table (db (ws ! k)) ticket_type)]"
      by (simp add: ids_def)
    from a tid show "next_rowid (get_table (db (ws ! Suc k)) ticket_type)
           = next_rowid (get_table (db (ws ! k)) ticket_type) + 1"
      by simp
  qed
  have inv: "next_rowid (get_table (db (ws ! k)) ticket_type) = first + int k
             \<and> ids k = ids 0 @ map (\<lambda>j. first + int j) [0..<k]"
    if "k \<le> length reqs" for k
    using that
  proof (induction k)
    case 0
    show ?case by (simp add: first_def)
  next
    case (Suc k)
    then have lt: "k < length reqs" and ih: "next_rowid (get_table (db (ws ! k)) ticket_type)
        = first + int k" "ids k = ids 0 @ map (\<lambda>j. first + int j) [0..<k]"
      by simp_all
    from step3 [OF lt] step4 [OF lt] ih show ?case
      by simp
  qed
  show ?thesis
  proof (intro allI impI)
    fix k assume lt: "k < length reqs"
    then have "k \<le> length reqs" "Suc k \<le> length reqs" by simp_all
    note i = inv [OF this(1)] and i' = inv [OF this(2)]
    from step1 [OF lt] step2 [OF lt] i i' show
      "(\<exists>w1. write_ticket (ws ! k) ticket_type (map normalize (snd (reqs ! k)))
                   = (w1, Inr (next_rowid (get_table (db (ws ! 0)) ticket_type) + int k)))
           \<and> (\<exists>rest. trace (ws ! Suc k)
                 = trace (ws ! k)
                   @ [SqlInsert (table_name ticket_type), SqlSelectLastId (table_name ticket_type),
                      CreateTextChannel
                        (lower (name ticket_type) @ ''-ticket-''
                         @ str_int (next_rowid (get_table (db (ws ! 0)) ticket_type) + int k))]
                   @ rest)
           \<and> map ticket_id (rows (get_table (db (ws ! Suc k)) ticket_type))
               = map ticket_id (rows (get_table (db (ws ! 0)) ticket_type))
                 @ map (\<lambda>j. next_rowid (get_table (db (ws ! 0)) ticket_type) + int j) [0..<Suc k]"
      unfolding first_def [symmetric] ids_def [symmetric] by simp
  qed
qed

theorem sequential_ids_witness:
  "\<not> self_report \<lparr>user = member_1\<rparr> REPORT [Member member_1, Member member_42, Str ''x'']
   \<and> \<not> self_report \<lparr>user = member_42\<rparr> REPORT [Member member_42, Member member_1, Str ''y'']
   \<and> map ticket_id (rows (get_table (db (fst
         (create_ticket
            (fst (create_ticket fresh_world \<lparr>user = member_1\<rparr> REPORT
                    [Member member_1, Member member_42, Str ''x'']))
            \<lparr>user = member_42\<rparr> REPORT [Member member_42, Member member_1, Str ''y'']))) REPORT))
       = [1, 2]"
proof -
  define a1 where "a1 = [Member member_1, Member member_42, Str ''x'']"
  define a2 where "a2 = [Member member_42, Member member_1, Str ''y'']"
  define w1 where "w1 = fst (create_ticket fresh_world \<lparr>user = member_1\<rparr> REPORT a1)"
  define w2 where "w2 = fst (create_ticket w1 \<lparr>user = member_42\<rparr> REPORT a2)"
  define ws where "ws = [fresh_world, w1, w2]"
  define reqs where "reqs = [(\<lparr>user = member_1\<rparr>, a1), (\<lparr>user = member_42\<rparr>, a2)]"
  have ns1: "\<not> self_report \<lparr>user = member_1\<rparr> REPORT a1"
    unfolding a1_def by (rule report_not_self)
  have ns2: "\<not> self_report \<lparr>user = member_42\<rparr> REPORT a2"
    unfolding a2_def by (rule second_report_not_self)
  have wt1: "\<exists>w tid. write_ticket fresh_world REPORT (map normalize a1) = (w, Inr tid)"
    unfolding a1_def using report_write by blast
  have wt2: "\<exists>w tid. write_ticket w1 REPORT (map normalize a2) = (w, Inr tid)"
    unfolding a1_def a2_def w1_def using second_report_write by (metis prod.collapse)
  have len: "length ws = Suc (length reqs)"
    by (simp add: ws_def reqs_def)
  have run: "\<forall>k<length reqs.
           \<not> self_report (fst (reqs ! k)) REPORT (snd (reqs ! k))
           \<and> (\<exists>w tid. write_ticket (ws ! k) REPORT (map normalize (snd (reqs ! k))) = (w, Inr tid))
           \<and> ws ! Suc k = fst (create_ticket (ws ! k) (fst (reqs ! k)) REPORT (snd (reqs ! k)))"
  proof (intro allI impI)
    fix k assume "k < length reqs"
    then consider "k = 0" | "k = Suc 0"
      by (auto simp: reqs_def less_Suc_eq)
    then show "\<not> self_report (fst (reqs ! k)) REPORT (snd (reqs ! k))
           \<and> (\<exists>w tid. write_ticket (ws ! k) REPORT (map normalize (snd (reqs ! k))) = (w, Inr tid))
           \<and> ws ! Suc k = fst (create_ticket (ws ! k) (fst (reqs ! k)) REPORT (snd (reqs ! k)))"
    proof cases
      case 1
      with ns1 wt1 show ?thesis by (simp add: ws_def reqs_def w1_def)
    next
      case 2
      with ns2 wt2 show ?thesis by (simp add: ws_def reqs_def w2_def)
    qed
  qed
  have first: "next_rowid (user_report_tickets (db fresh_world)) = 1"
    and none: "rows (user_report_tickets (db fresh_world)) = []"
    by (simp_all add: fresh_world_def fresh_table_def next_rowid_def get_id_sql_def)
  from sequential_ids [OF len run, rule_format, of "Suc 0"]
  have "map ticket_id (rows (get_table (db (ws ! Suc (Suc 0))) REPORT))
          = map ticket_id (rows (get_table (db (ws ! 0)) REPORT))
            @ map (\<lambda>j. next_rowid (get_table (db (ws ! 0)) REPORT) + int j) [0..<Suc (Suc 0)]"
    by (simp add: reqs_def)
  then have "map ticket_id (rows (get_table (db w2) REPORT)) = [1, 2]"
    by (simp add: ws_def first none)
  with ns1 ns2 show ?thesis
    unfolding w2_def w1_def a1_def a2_def by simp
qed

text \<open>
  C9. The update that stores the channel during ticket creation changes one thing: the
  \<open>channel_id\<close> of the row just inserted. No older row of the partition has the new id; the
  partition holds its old rows unchanged, followed by the new row with only \<open>channel_id\<close>
  set (so \<open>user_id\<close>, \<open>accused_user_id\<close> and the message are as inserted); the sequence
  counter and the other partition are as the insert left them.
\<close>

theorem set_channel_frame:
  assumes "\<not> self_report interaction ticket_type args"
    and "write_ticket w ticket_type (map normalize args) = (w1, Inr tid)"
    and "create_ticket_channel w1 (lower (name ticket_type)) tid = (w2, Inr ch)"
  shows "\<exists>r. rows (get_table (db w1) ticket_type) = rows (get_table (db w) ticket_type) @ [r]
           \<and> ticket_id r = tid
           \<and> tid \<notin> ticket_id ` set (rows (get_table (db w) ticket_type))
           \<and> rows (get_table (db (fst (create_ticket w interaction ticket_type args))) ticket_type)
               = rows (get_table (db w) ticket_type) @ [r\<lparr>channel_id := INTEGER (chan_id ch)\<rparr>]
           \<and> seq (get_table (db (fst (create_ticket w interaction ticket_type args))) ticket_type)
               = seq (get_table (db w1) ticket_type)
           \<and> (\<forall>ty'. ty' \<noteq> ticket_type \<longrightarrow>
                 get_table (db (fst (create_ticket w interaction ticket_type args))) ty'
                   = get_table (db w1) ty')"
proof -
  note d = create_ticket_db [OF assms]
  have "seq (get_table (db (fst (create_ticket w interaction ticket_type args))) ticket_type)
               = seq (get_table (db w1) ticket_type)"
    by (simp add: d channel_query_def)
  moreover have "\<forall>ty'. ty' \<noteq> ticket_type \<longrightarrow>
                 get_table (db (fst (create_ticket w interaction ticket_type args))) ty'
                   = get_table (db w1) ty'"
    by (simp add: d)
  ultimately show ?thesis
    using create_ticket_rows [OF assms] by blast
qed

theorem set_channel_frame_witness:
  "\<not> self_report \<lparr>user = member_1\<rparr> REPORT [Member member_1, Member member_42, Str ''x'']
   \<and> (\<exists>r. ticket_id r = 1
         \<and> rows (get_table (db (fst (create_ticket fresh_world \<lparr>user = member_1\<rparr> REPORT
                 [Member member_1, Member member_42, Str ''x'']))) REPORT)
             = rows (get_table (db fresh_world) REPORT) @ [r\<lparr>channel_id := INTEGER 1000\<rparr>])
   \<and> get_table (db (fst (create_ticket fresh_world \<lparr>user = member_1\<rparr> REPORT
                 [Member member_1, Member member_42, Str ''x'']))) SUGGESTION = fresh_table"
proof -
  define run where "run = create_ticket fresh_world \<lparr>user = member_1\<rparr> REPORT
            [Member member_1, Member member_42, Str ''x'']"
  define w1 where "w1 = fresh_world
         \<lparr>db := \<lparr>user_report_tickets =
                    \<lparr>rows = [\<lparr>ticket_id = 1, user_id = INTEGER 1, accused_user_id = INTEGER 42,
                               channel_id = NULL, msg = TEXT ''x''\<rparr>],
                     seq = 1\<rparr>,
                  user_suggestion_tickets = fresh_table\<rparr>,
           trace := [SqlInsert ''user_report_tickets'', SqlSelectLastId ''user_report_tickets'']\<rparr>"
  define ch where
    "ch = \<lparr>chan_id = 1000, chan_name = ''report-ticket-1'', category = 5, messages = []\<rparr>"
  have wt: "write_ticket fresh_world REPORT
              (map normalize [Member member_1, Member member_42, Str ''x'']) = (w1, Inr 1)"
    unfolding w1_def by (rule report_write)
  have cc: "create_ticket_channel w1 (lower (name REPORT)) 1
              = (fst (create_ticket_channel w1 (lower (name REPORT)) 1), Inr ch)"
    unfolding w1_def ch_def by (rule report_channel)
  from set_channel_frame [OF report_not_self wt cc]
  obtain r where 1: "ticket_id r = 1"
    and 2: "rows (get_table (db (fst run)) REPORT)
              = rows (get_table (db fresh_world) REPORT) @ [r\<lparr>channel_id := INTEGER (chan_id ch)\<rparr>]"
    and 3: "\<forall>ty'. ty' \<noteq> REPORT \<longrightarrow> get_table (db (fst run)) ty' = get_table (db w1) ty'"
    unfolding run_def by blast
  have "get_table (db (fst run)) SUGGESTION = get_table (db w1) SUGGESTION"
    by (rule 3 [rule_format]) simp
  then have 4: "get_table (db (fst run)) SUGGESTION = fresh_table"
    by (simp add: w1_def)
  have "chan_id ch = 1000"
    by (simp add: ch_def)
  with 1 2 4 report_not_self show ?thesis
    unfolding run_def by auto
qed

text \<open>
  C4. When a creation that is no self-report completes (the insert, the channel and the
  update succeed and the summary is sent), a lookup right afterwards of the id the insert
  block read back finds a row whose \<open>channel_id\<close> is the id of the channel that was created.
\<close>

theorem created_ticket_has_channel:
  assumes "\<not> self_report interaction ticket_type args"
    and "create_ticket w interaction ticket_type args = (w', Inr ())"
  shows "\<exists>w1 tid w2 ch.
           write_ticket w ticket_type (map normalize args) = (w1, Inr tid)
           \<and> create_ticket_channel w1 (lower (name ticket_type)) tid = (w2, Inr ch)
           \<and> find_by_id (db w') ticket_type tid = Inr (INTEGER (chan_id ch))"
proof -
  from assms obtain w1 tid where
    wt: "write_ticket w ticket_type (map normalize args) = (w1, Inr tid)"
    by (cases "write_ticket w ticket_type (map normalize args)")
      (auto simp: create_ticket_def Let_def self_report_def nth_arg_def
        split: sum.splits if_splits bool.splits)
  from assms wt obtain w2 ch where
    cc: "create_ticket_channel w1 (lower (name ticket_type)) tid = (w2, Inr ch)"
    unfolding create_ticket_def Let_def guard_passes [OF assms(1) wt]
    by (cases "create_ticket_channel w1 (lower (name ticket_type)) tid")
      (auto split: sum.splits)
  from create_ticket_rows [OF assms(1) wt cc] assms(2)
  obtain r where "ticket_id r = tid"
    "tid \<notin> ticket_id ` set (rows (get_table (db w) ticket_type))"
    "rows (get_table (db w') ticket_type)
       = rows (get_table (db w) ticket_type) @ [r\<lparr>channel_id := INTEGER (chan_id ch)\<rparr>]"
    by auto
  moreover from this
  have "filter (\<lambda>x. ticket_id x = tid) (rows (get_table (db w) ticket_type)) = []"
    by (intro filter_absent) simp
  ultimately have "select_channel_id (get_table (db w') ticket_type) tid = [INTEGER (chan_id ch)]"
    by (simp add: select_channel_id_def)
  then have "find_by_id (db w') ticket_type tid = Inr (INTEGER (chan_id ch))"
    by (simp add: find_by_id_def)
  with wt cc show ?thesis by blast
qed

theorem created_ticket_has_channel_witness:
  "\<not> self_report \<lparr>user = member_1\<rparr> REPORT [Member member_1, Member member_42, Str ''x'']
   \<and> snd (create_ticket fresh_world \<lparr>user = member_1\<rparr> REPORT
            [Member member_1, Member member_42, Str ''x'']) = Inr ()
   \<and> find_by_id (db (fst (create_ticket fresh_world \<lparr>user = member_1\<rparr> REPORT
            [Member member_1, Member member_42, Str ''x'']))) REPORT 1 = Inr (INTEGER 1000)"
proof -
  define run where "run = create_ticket fresh_world \<lparr>user = member_1\<rparr> REPORT
            [Member member_1, Member member_42, Str ''x'']"
  have run: "run = (fst run, Inr ())"
    using report_runs unfolding run_def by (simp add: prod_eq_iff)
  from created_ticket_has_channel [OF report_not_self run [unfolded run_def]]
  obtain w1 tid w2 ch where
    "write_ticket fresh_world REPORT (map normalize [Member member_1, Member member_42, Str ''x''])
       = (w1, Inr tid)"
    and "create_ticket_channel w1 (lower (name REPORT)) tid = (w2, Inr ch)"
    and found: "find_by_id (db (fst run)) REPORT tid = Inr (INTEGER (chan_id ch))"
    unfolding run_def by blast
  with report_write report_channel have "tid = 1" "chan_id ch = 1000"
    by auto
  with found report_not_self report_runs show ?thesis
    unfolding run_def by simp
qed

section \<open>Properties of the log file opener\<close>

lemma of_char_digit: "d < 10 \<Longrightarrow> (of_char (digit d) :: nat) = 48 + d"
  by (simp add: digit_def)

lemma digits_value_snoc: "digits_value (s @ [c]) = 10 * digits_value s + (of_char c - 48)"
  by (simp add: digits_value_def)

lemma digits_value_str_nat: "digits_value (str_nat n) = n"
proof (induction n rule: str_nat.induct)
  case (1 n)
  show ?case
  proof (cases "n < 10")
    case True
    then show ?thesis
      by (subst str_nat.simps) (simp add: digits_value_def of_char_digit)
  next
    case False
    with 1 have "digits_value (str_nat (n div 10)) = n div 10" by simp
    with False show ?thesis
      by (subst str_nat.simps) (simp add: digits_value_snoc of_char_digit)
  qed
qed

lemma str_nat_inj: "str_nat i = str_nat j \<Longrightarrow> i = j"
  by (metis digits_value_str_nat)

lemma filename_inj: "filename ts i = filename ts j \<Longrightarrow> i = j"
  by (auto simp: filename_def dest: str_nat_inj split: if_splits)

lemma inj_filename: "inj (filename ts)"
  by (rule injI) (rule filename_inj)

lemma open_from_first_free:
  assumes "\<forall>j. i \<le> j \<and> j < k \<longrightarrow> filename ts j \<in> set (map fst d)"
    and "filename ts k \<notin> set (map fst d)" and "i \<le> k"
  shows "open_from ts d i = Some (d @ [(filename ts k, [])], filename ts k)"
  using assms
proof (induction "k - i" arbitrary: i)
  case 0
  then have "i = k" by simp
  with "0.prems"(2) show ?case
    by (subst open_from.simps) (simp add: open_x_def)
next
  case (Suc n)
  then have lt: "i < k" by simp
  with Suc.prems(1) have here: "filename ts i \<in> set (map fst d)" by simp
  have "open_from ts d (Suc i) = Some (d @ [(filename ts k, [])], filename ts k)"
    using Suc.hyps(2) Suc.prems lt by (intro Suc.hyps(1)) auto
  with here show ?case
    by (subst open_from.simps) (simp add: open_x_def)
qed

lemma free_name_exists: "\<exists>k. filename ts k \<notin> set (map fst d)"
proof -
  have "finite (filename ts -` set (map fst d))"
    by (intro finite_vimageI inj_filename) simp
  then obtain k where "k \<notin> filename ts -` set (map fst d)"
    using ex_new_if_finite infinite_UNIV_nat by blast
  then show ?thesis by auto
qed

lemma names_0_1_2:
  "filename ''2026-11-04'' 0 = ''2026-11-04.txt''"
  "filename ''2026-11-04'' 1 = ''2026-11-04_(1).txt''"
  "filename ''2026-11-04'' (Suc 0) = ''2026-11-04_(1).txt''"
  "filename ''2026-11-04'' 2 = ''2026-11-04_(2).txt''"
  by code_simp+

text \<open>
  C10. For every state of the logs directory and every timestamp, \<open>_open_file\<close> returns: it
  creates one new, empty file and returns it. The name is the first of \<open>{timestamp}.txt\<close>,
  \<open>{timestamp}_(1).txt\<close>, \<open>{timestamp}_(2).txt\<close>, ... that the directory did not hold (every
  earlier name of the list is taken), and the directory afterwards is the one before with
  the new file added: every existing file is kept with its content.
\<close>

theorem open_file_creates_new:
  "\<exists>k. open_file timestamp logs
          = Some (mkdir_exist_ok logs @ [(filename timestamp k, [])], filename timestamp k)
       \<and> filename timestamp k \<notin> set (map fst (mkdir_exist_ok logs))
       \<and> (\<forall>j<k. filename timestamp j \<in> set (map fst (mkdir_exist_ok logs)))"
proof -
  define d where "d = mkdir_exist_ok logs"
  define k where "k = (LEAST k. filename timestamp k \<notin> set (map fst d))"
  have free: "filename timestamp k \<notin> set (map fst d)"
    unfolding k_def using free_name_exists [of timestamp d] by (rule LeastI_ex)
  have taken: "\<forall>j<k. filename timestamp j \<in> set (map fst d)"
    unfolding k_def using not_less_Least by blast
  then have "open_from timestamp d 0
               = Some (d @ [(filename timestamp k, [])], filename timestamp k)"
    using free by (intro open_from_first_free) auto
  with free taken show ?thesis
    unfolding open_file_def d_def by blast
qed

theorem open_file_creates_new_witness:
  "open_file ''2026-11-04''
      (Some [(''2026-11-04.txt'', ''first''), (''2026-11-04_(1).txt'', ''second'')])
   = Some ([(''2026-11-04.txt'', ''first''), (''2026-11-04_(1).txt'', ''second''),
            (''2026-11-04_(2).txt'', [])], ''2026-11-04_(2).txt'')"
proof -
  define d :: directory where
    "d = [(''2026-11-04.txt'', ''first''), (''2026-11-04_(1).txt'', ''second'')]"
  have d: "mkdir_exist_ok (Some d) = d"
    by (simp add: mkdir_exist_ok_def)
  from open_file_creates_new [of "''2026-11-04''" "Some d"]
  obtain k where res: "open_file ''2026-11-04'' (Some d)
          = Some (d @ [(filename ''2026-11-04'' k, [])], filename ''2026-11-04'' k)"
    and free: "filename ''2026-11-04'' k \<notin> set (map fst d)"
    and taken: "\<forall>j<k. filename ''2026-11-04'' j \<in> set (map fst d)"
    unfolding d by blast
  have n0: "filename ''2026-11-04'' 0 \<in> set (map fst d)"
    and n1: "filename ''2026-11-04'' 1 \<in> set (map fst d)"
    and n2: "filename ''2026-11-04'' 2 \<notin> set (map fst d)"
    by (simp_all add: names_0_1_2 d_def)
  from taken n2 have "\<not> 2 < k" by blast
  moreover from free n0 have "k \<noteq> 0" by metis
  moreover from free n1 have "k \<noteq> 1" by metis
  ultimately have "k = 2" by arith
  with res show ?thesis
    by (simp add: names_0_1_2 d_def)
qed

end
